theory Spec2Isabelle
  imports Complex_Main "HOL-Library.Sublist"
begin

section \<open>Strings and character classes\<close>

text \<open>
  A Python \<open>str\<close> is a sequence of Unicode code points. A code point is modelled as
  a natural number and a string as a list of them; \<open>py_str\<close> reads an ASCII literal.
\<close>

type_synonym codepoint = nat
type_synonym str = "codepoint list"

definition py_str :: "string \<Rightarrow> str" where
  "py_str s = map of_char s"

text \<open>The ranges the source's regular expressions name: \<open>A-Z\<close>, \<open>a-z\<close>, \<open>0-9\<close>.\<close>

definition is_upper_az :: "codepoint \<Rightarrow> bool" where
  "is_upper_az c = (65 \<le> c \<and> c \<le> 90)"

definition is_lower_az :: "codepoint \<Rightarrow> bool" where
  "is_lower_az c = (97 \<le> c \<and> c \<le> 122)"

definition is_digit09 :: "codepoint \<Rightarrow> bool" where
  "is_digit09 c = (48 \<le> c \<and> c \<le> 57)"

text \<open>The class \<open>[A-Za-z]\<close>.\<close>

definition is_alpha_az :: "codepoint \<Rightarrow> bool" where
  "is_alpha_az c = (is_upper_az c \<or> is_lower_az c)"

text \<open>The class \<open>[A-Za-z0-9_]\<close> of mentions and hashtags.\<close>

definition is_word :: "codepoint \<Rightarrow> bool" where
  "is_word c = (is_alpha_az c \<or> is_digit09 c \<or> c = 95)"

text \<open>The class \<open>[A-Za-z0-9./]\<close> of the URL pattern.\<close>

definition is_urlch :: "codepoint \<Rightarrow> bool" where
  "is_urlch c = (is_alpha_az c \<or> is_digit09 c \<or> c = 46 \<or> c = 47)"

text \<open>
  Whitespace as \<open>\s\<close> of a \<open>str\<close> pattern and \<open>str.strip()\<close> both see it (the
  code points for which \<open>str.isspace()\<close> holds): U+0009..U+000D, U+001C..U+001F,
  U+0020, U+0085, U+00A0, U+1680, U+2000..U+200A, U+2028, U+2029, U+202F, U+205F, U+3000.
\<close>

definition is_space :: "codepoint \<Rightarrow> bool" where
  "is_space c =
     ((9 \<le> c \<and> c \<le> 13) \<or> (28 \<le> c \<and> c \<le> 32) \<or> c = 133 \<or> c = 160 \<or> c = 5760 \<or>
      (8192 \<le> c \<and> c \<le> 8202) \<or> c = 8232 \<or> c = 8233 \<or> c = 8239 \<or> c = 8287 \<or>
      c = 12288)"

section \<open>Regular-expression substitution\<close>

text \<open>
  \<open>re.sub(pattern, '', text)\<close> scans the text from the left. At each position it tries
  the pattern; a match is deleted and the scan goes on right after it, otherwise the
  character is kept and the scan moves one position. A pattern is given by its matcher:
  the length of its match anchored at the start of the remaining text, \<open>None\<close> when it
  does not match there. (An empty match deletes nothing and the character is kept.)
\<close>

function re_sub_del :: "(str \<Rightarrow> nat option) \<Rightarrow> str \<Rightarrow> str" where
  "re_sub_del m [] = []"
| "re_sub_del m (c # cs) =
     (case m (c # cs) of
        None \<Rightarrow> c # re_sub_del m cs
      | Some 0 \<Rightarrow> c # re_sub_del m cs
      | Some (Suc n) \<Rightarrow> re_sub_del m (drop n cs))"
  by pat_completeness auto
termination
  by (relation "measure (\<lambda>(m, s). length s)") auto

text \<open>A greedy \<open>[class]+\<close>: the longest run of class characters, at least one.\<close>

definition match_plus :: "(codepoint \<Rightarrow> bool) \<Rightarrow> str \<Rightarrow> nat option" where
  "match_plus P s =
     (case takeWhile P s of [] \<Rightarrow> None | x # xs \<Rightarrow> Some (length (x # xs)))"

text \<open>A literal: the rest of the text after it, when the text starts with it.\<close>

fun match_lit :: "str \<Rightarrow> str \<Rightarrow> str option" where
  "match_lit [] s = Some s"
| "match_lit (l # ls) [] = None"
| "match_lit (l # ls) (c # cs) = (if l = c then match_lit ls cs else None)"

text \<open>The pattern \<open>@[A-Za-z0-9_]+\<close>.\<close>

definition match_mention :: "str \<Rightarrow> nat option" where
  "match_mention s =
     (case match_lit (py_str ''@'') s of
        None \<Rightarrow> None
      | Some r \<Rightarrow> map_option (\<lambda>n. 1 + n) (match_plus is_word r))"

text \<open>The pattern \<open>#[A-Za-z0-9_]+\<close>.\<close>

definition match_hashtag :: "str \<Rightarrow> nat option" where
  "match_hashtag s =
     (case match_lit (py_str ''#'') s of
        None \<Rightarrow> None
      | Some r \<Rightarrow> map_option (\<lambda>n. 1 + n) (match_plus is_word r))"

text \<open>
  The pattern \<open>https?://[A-Za-z0-9./]+\<close>. The optional \<open>s\<close> is tried first; when the
  text goes on with \<open>https\<close> and the rest of the pattern fails, the engine backtracks to
  the branch without \<open>s\<close>, which then needs \<open>:\<close> where the text has \<open>s\<close> and fails
  too. So the second branch is only reached when the text does not start with
  \<open>https\<close>.
\<close>

definition match_url :: "str \<Rightarrow> nat option" where
  "match_url s =
     (case match_lit (py_str ''http'') s of
        None \<Rightarrow> None
      | Some r \<Rightarrow>
          (case match_lit (py_str ''s'') r of
             Some r' \<Rightarrow>
               (case match_lit (py_str ''://'') r' of
                  None \<Rightarrow> None
                | Some u \<Rightarrow> map_option (\<lambda>n. 8 + n) (match_plus is_urlch u))
           | None \<Rightarrow>
               (case match_lit (py_str ''://'') r of
                  None \<Rightarrow> None
                | Some u \<Rightarrow> map_option (\<lambda>n. 7 + n) (match_plus is_urlch u))))"

text \<open>The pattern \<open>[^A-Za-z\s]\<close>: one character that is neither a letter nor whitespace.\<close>

definition match_special :: "str \<Rightarrow> nat option" where
  "match_special s =
     (case s of
        [] \<Rightarrow> None
      | c # cs \<Rightarrow> (if is_alpha_az c \<or> is_space c then None else Some 1))"

section \<open>Text preprocessing\<close>

text \<open>
  \<open>str.lower()\<close>, on the strings \<open>preprocess_text\<close> gives it: the substitution before it
  has left only the letters \<open>A-Z\<close>, \<open>a-z\<close> and whitespace, where lower-casing maps
  \<open>A-Z\<close> to \<open>a-z\<close> and changes nothing else. Python's case mapping of the other code
  points is not modelled.
\<close>

definition lower_cp :: "codepoint \<Rightarrow> codepoint" where
  "lower_cp c = (if is_upper_az c then c + 32 else c)"

definition lower :: "str \<Rightarrow> str" where
  "lower s = map lower_cp s"

text \<open>\<open>str.strip()\<close>: whitespace is dropped from both ends.\<close>

definition strip :: "str \<Rightarrow> str" where
  "strip s = rev (dropWhile is_space (rev (dropWhile is_space s)))"

text \<open>
  \<^verbatim>\<open>
  def preprocess_text(text):
      text = re.sub(r'@[A-Za-z0-9_]+', '', text)
      text = re.sub(r'#[A-Za-z0-9_]+', '', text)
      text = re.sub(r'https?://[A-Za-z0-9./]+', '', text)
      text = re.sub(r'[^A-Za-z\s]', '', text)
      text = text.lower().strip()
      return text
  \<close>
\<close>

definition preprocess_text :: "str \<Rightarrow> str" where
  "preprocess_text text =
     (let text = re_sub_del match_mention text;
          text = re_sub_del match_hashtag text;
          text = re_sub_del match_url text;
          text = re_sub_del match_special text;
          text = strip (lower text)
      in text)"

section \<open>The normalizer as the specification words it\<close>

text \<open>
  The specification lists six steps. Each is written here on its own, from the words of
  the specification: the character classes are enumerated, the removals recurse on the
  text, and none of the definitions above (the substitution engine, the matchers, the
  classes of the patterns, \<open>lower\<close>, \<open>strip\<close>) is used. The result is to be compared
  with \<open>preprocess_text\<close>.
\<close>

text \<open>The ASCII letters: the code points of \<open>A\<close> to \<open>Z\<close> and of \<open>a\<close> to \<open>z\<close>.\<close>

definition spec_letter :: "codepoint \<Rightarrow> bool" where
  "spec_letter c = (c \<in> set ([65..<91] @ [97..<123]))"

text \<open>The alphanumerics: the letters and the digits \<open>0\<close> to \<open>9\<close>.\<close>

definition spec_alnum :: "codepoint \<Rightarrow> bool" where
  "spec_alnum c = (spec_letter c \<or> c \<in> set [48..<58])"

text \<open>Steps 1 and 2: alphanumerics or underscore.\<close>

definition spec_tag_char :: "codepoint \<Rightarrow> bool" where
  "spec_tag_char c = (spec_alnum c \<or> c \<in> set (py_str ''_''))"

text \<open>Step 3: alphanumerics, \<open>.\<close> or \<open>/\<close>, and nothing else.\<close>

definition spec_url_char :: "codepoint \<Rightarrow> bool" where
  "spec_url_char c = (spec_alnum c \<or> c \<in> set (py_str ''./''))"

text \<open>Whitespace, one code point after the other.\<close>

definition spec_space :: "codepoint \<Rightarrow> bool" where
  "spec_space c =
     (c \<in> set ([9, 10, 11, 12, 13, 28, 29, 30, 31, 32, 133, 160, 5760] @ [8192..<8203] @
        [8232, 8233, 8239, 8287, 12288]))"

text \<open>
  Steps 1 and 2: remove the tokens made of the character \<open>a\<close> followed by one or more
  characters of the class \<open>P\<close>.
\<close>

function remove_tokens :: "codepoint \<Rightarrow> (codepoint \<Rightarrow> bool) \<Rightarrow> str \<Rightarrow> str" where
  "remove_tokens a P [] = []"
| "remove_tokens a P (c # cs) =
     (if c = a \<and> takeWhile P cs \<noteq> [] then remove_tokens a P (dropWhile P cs)
      else c # remove_tokens a P cs)"
  by pat_completeness auto
termination
  by (relation "measure (\<lambda>(a, P, s). length s)")
     (auto simp: length_dropWhile_le less_Suc_eq_le)

text \<open>Step 3: \<open>http\<close> or \<open>https\<close> followed by \<open>://\<close>; the length of that scheme.\<close>

definition url_scheme_len :: "str \<Rightarrow> nat option" where
  "url_scheme_len s =
     (if prefix (py_str ''https://'') s then Some 8
      else if prefix (py_str ''http://'') s then Some 7
      else None)"

text \<open>
  Step 3: remove the tokens made of a scheme followed by one or more alphanumerics,
  \<open>.\<close> or \<open>/\<close>. The token ends at the first other character, so a query string or
  other URL punctuation stays in the text.
\<close>

function remove_urls :: "str \<Rightarrow> str" where
  "remove_urls [] = []"
| "remove_urls (c # cs) =
     (case url_scheme_len (c # cs) of
        None \<Rightarrow> c # remove_urls cs
      | Some k \<Rightarrow>
          (if takeWhile spec_url_char (drop k (c # cs)) = [] then c # remove_urls cs
           else remove_urls (dropWhile spec_url_char (drop k (c # cs)))))"
  by pat_completeness auto
termination
proof (relation "measure length", goal_cases)
  case 1
  show ?case by simp
next
  case (2 c cs)
  show ?case by simp
next
  case (3 c cs k)
  show ?case by simp
next
  case (4 c cs k)
  from 4(1) have "0 < k"
    by (auto simp: url_scheme_len_def split: if_splits)
  then have "length (drop k (c # cs)) < length (c # cs)"
    by simp
  moreover have
    "length (dropWhile spec_url_char (drop k (c # cs))) \<le> length (drop k (c # cs))"
    by (rule length_dropWhile_le)
  ultimately show ?case by simp
qed

text \<open>Step 4: remove every character that is not an ASCII letter or whitespace.\<close>

fun remove_special :: "str \<Rightarrow> str" where
  "remove_special [] = []"
| "remove_special (c # cs) =
     (if spec_letter c \<or> spec_space c then c # remove_special cs else remove_special cs)"

text \<open>Step 5: lower-case: each of \<open>A\<close> to \<open>Z\<close> becomes the letter of \<open>a\<close> to \<open>z\<close> at its place.\<close>

definition to_lower :: "codepoint \<Rightarrow> codepoint" where
  "to_lower c = (case map_of (zip [65..<91] [97..<123]) c of None \<Rightarrow> c | Some l \<Rightarrow> l)"

fun lower_case :: "str \<Rightarrow> str" where
  "lower_case [] = []"
| "lower_case (c # cs) = to_lower c # lower_case cs"

text \<open>Step 6: trim the whitespace at the start and at the end.\<close>

fun trim_leading :: "str \<Rightarrow> str" where
  "trim_leading [] = []"
| "trim_leading (c # cs) = (if spec_space c then trim_leading cs else c # cs)"

definition trim_trailing :: "str \<Rightarrow> str" where
  "trim_trailing s = rev (trim_leading (rev s))"

definition trim :: "str \<Rightarrow> str" where
  "trim s = trim_trailing (trim_leading s)"

text \<open>Steps 1 to 6, in the order of the specification.\<close>

definition normalize_spec :: "str \<Rightarrow> str" where
  "normalize_spec x =
     (let step1 = remove_tokens (hd (py_str ''@'')) spec_tag_char x;
          step2 = remove_tokens (hd (py_str ''#'')) spec_tag_char step1;
          step3 = remove_urls step2;
          step4 = remove_special step3;
          step5 = lower_case step4;
          step6 = trim step5
      in step6)"

section \<open>Sentiment analyzer and classifier\<close>

text \<open>
  The polarity comes from \<open>TextBlob(cleaned_text).sentiment.polarity\<close>, a third-party
  scorer: it is a parameter of the model. It returns a polarity (a float, idealised as
  a real number) or raises; \<open>analyze_sentiment\<close> has no handler, so what the scorer
  raises leaves \<open>analyze_sentiment\<close> unchanged.
  \<^verbatim>\<open>
  def analyze_sentiment(text):
      cleaned_text = preprocess_text(text)
      polarity = TextBlob(cleaned_text).sentiment.polarity
      if polarity > 0:
          sentiment = "Positive"
          sentiment_emoji = <U+1F60A>
      else:
          sentiment = "Negative"
          sentiment_emoji = <U+1F620>
      return polarity, sentiment, sentiment_emoji
  \<close>
\<close>

text \<open>
  What a call can fail with. The source defines no exception class and has neither
  \<open>try\<close> nor \<open>raise\<close>: a failure is a Python exception that the scorer or its import
  raises, \<open>PyException n\<close> for the class named \<open>n\<close>. \<open>ScoringUnavailable\<close> is the error
  kind that the specification names; nothing in the source constructs it.
\<close>

datatype error = ScoringUnavailable | PyException str

definition analyze_sentiment :: "(str \<Rightarrow> 'e + real) \<Rightarrow> str \<Rightarrow> 'e + real \<times> str \<times> str" where
  "analyze_sentiment score text =
     (let cleaned_text = preprocess_text text in
      case score cleaned_text of
        Inl e \<Rightarrow> Inl e
      | Inr polarity \<Rightarrow>
          (if polarity > 0 then Inr (polarity, py_str ''Positive'', [128522])
           else Inr (polarity, py_str ''Negative'', [128544])))"

section \<open>Session state\<close>

text \<open>
  A row of the data frame \<open>st.session_state.data\<close> and the four keys of the session
  state. A \<open>datetime\<close> is a number of microseconds. The column \<open>text\<close> is the
  field \<open>text_col\<close>.
\<close>

type_synonym datetime = int

record row =
  time :: datetime
  text_col :: str
  sentiment_score :: real
  sentiment :: str
  sentiment_emoji :: str

record session_state =
  data :: "row list"
  last_update :: datetime
  running :: bool
  keyword :: str

text \<open>The session state of a first run (lines 77 to 84).\<close>

definition init_session :: "datetime \<Rightarrow> session_state" where
  "init_session now =
     \<lparr>data = [], last_update = now, running = False, keyword = py_str ''iPhone''\<rparr>"

text \<open>The widgets of the sidebar, as one run of the script reads them.\<close>

record controls =
  keyword_input :: str
  refresh_rate :: nat
  tweets_per_refresh :: nat
  start_clicked :: bool
  clear_clicked :: bool

text \<open>\<open>st.rerun()\<close> ends the run at once; the session state stays as it is then.\<close>

datatype 'a flow = Rerun 'a | Continue 'a

text \<open>
  The Clear Data button:
  \<^verbatim>\<open>st.session_state.data = pd.DataFrame(columns=[...])\<close>
\<close>

definition clear_data :: "session_state \<Rightarrow> session_state" where
  "clear_data st = st\<lparr>data := []\<rparr>"

text \<open>
  \<^verbatim>\<open>
  if st.button("Start Monitoring" if not st.session_state.running else "Pause Monitoring"):
      st.session_state.running = not st.session_state.running
      st.session_state.keyword = keyword
      st.rerun()
  ...
  if st.button("Clear Data"):
      st.session_state.data = pd.DataFrame(columns=[...])
      st.rerun()
  \<close>
\<close>

definition sidebar :: "controls \<Rightarrow> session_state \<Rightarrow> session_state flow" where
  "sidebar w st =
     (if start_clicked w then
        Rerun (st\<lparr>running := \<not> running st, keyword := keyword_input w\<rparr>)
      else if clear_clicked w then Rerun (clear_data st)
      else Continue st)"

text \<open>
  The loop over the fetched tweets. \<open>clock k\<close> is the \<open>k\<close>-th reading of
  \<open>datetime.now()\<close> in the run.
  \<^verbatim>\<open>
  new_data = []
  for t in tweets:
      score, sentiment, emoji = analyze_sentiment(t)
      new_data.append({"time": datetime.now(), "text": t, "sentiment_score": score,
                       "sentiment": sentiment, "sentiment_emoji": emoji})
  \<close>
\<close>

fun analyze_tweets ::
  "(str \<Rightarrow> 'e + real) \<Rightarrow> (nat \<Rightarrow> datetime) \<Rightarrow> nat \<Rightarrow> str list \<Rightarrow> 'e + row list" where
  "analyze_tweets score clock k [] = Inr []"
| "analyze_tweets score clock k (t # ts) =
     (case analyze_sentiment score t of
        Inl e \<Rightarrow> Inl e
      | Inr (s, lbl, emoji) \<Rightarrow>
          (case analyze_tweets score clock (Suc k) ts of
             Inl e \<Rightarrow> Inl e
           | Inr rows \<Rightarrow>
               Inr (\<lparr>time = clock k, text_col = t, sentiment_score = s, sentiment = lbl,
                     sentiment_emoji = emoji\<rparr> # rows)))"

text \<open>\<open>pd.concat([st.session_state.data, df_new], ignore_index=True)\<close>\<close>

definition append_rows :: "row list \<Rightarrow> row list \<Rightarrow> row list" where
  "append_rows d new = d @ new"

text \<open>
  The update of a run (lines 118 to 142). \<open>fetch\<close> is the data source
  \<open>get_fake_tweets\<close>.
\<close>

definition update_data ::
  "(str \<Rightarrow> 'e + real) \<Rightarrow> (nat \<Rightarrow> datetime) \<Rightarrow> (str \<Rightarrow> nat \<Rightarrow> str list) \<Rightarrow> controls \<Rightarrow>
   session_state \<Rightarrow> 'e + session_state flow" where
  "update_data score clock fetch w st =
     (if running st then
        (if int (refresh_rate w) * 1000000 \<le> clock 0 - last_update st then
           (let tweets = fetch (keyword_input w) (tweets_per_refresh w) in
            case analyze_tweets score clock 1 tweets of
              Inl e \<Rightarrow> Inl e
            | Inr new \<Rightarrow>
                Inr (Rerun (st\<lparr>data := append_rows (data st) new,
                                last_update := clock (Suc (length tweets))\<rparr>)))
         else Inr (Continue st))
      else Inr (Continue st))"

text \<open>One run of the script, as far as it changes the session state.\<close>

definition script_run ::
  "(str \<Rightarrow> 'e + real) \<Rightarrow> (nat \<Rightarrow> datetime) \<Rightarrow> (str \<Rightarrow> nat \<Rightarrow> str list) \<Rightarrow> controls \<Rightarrow>
   session_state \<Rightarrow> 'e + session_state flow" where
  "script_run score clock fetch w st =
     (case sidebar w st of
        Rerun st' \<Rightarrow> Inr (Rerun st')
      | Continue st' \<Rightarrow> update_data score clock fetch w st')"

section \<open>Metrics and trend\<close>

text \<open>
  \<^verbatim>\<open>
  positive = len(st.session_state.data[st.session_state.data["sentiment"] == "Positive"])
  negative = len(st.session_state.data[st.session_state.data["sentiment"] == "Negative"])
  total = len(st.session_state.data)
  \<close>
\<close>

definition counts :: "row list \<Rightarrow> nat \<times> nat \<times> nat" where
  "counts d =
     (let positive = length (filter (\<lambda>r. sentiment r = py_str ''Positive'') d);
          negative = length (filter (\<lambda>r. sentiment r = py_str ''Negative'') d);
          total = length d
      in (positive, negative, total))"

text \<open>The dashboard shows the three numbers only when the frame is not empty (line 145).\<close>

definition metrics :: "row list \<Rightarrow> (nat \<times> nat \<times> nat) option" where
  "metrics d = (if d \<noteq> [] then Some (counts d) else None)"

text \<open>
  The store states built from the empty frame by appending one record at a time,
  \<open>k\<close> of them labelled Positive and \<open>m\<close> labelled Negative, in any interleaving.
\<close>

inductive appended :: "nat \<Rightarrow> nat \<Rightarrow> row list \<Rightarrow> bool" where
  appended_empty: "appended 0 0 []"
| appended_positive:
    "appended k m d \<Longrightarrow> sentiment r = py_str ''Positive'' \<Longrightarrow>
     appended (Suc k) m (append_rows d [r])"
| appended_negative:
    "appended k m d \<Longrightarrow> sentiment r = py_str ''Negative'' \<Longrightarrow>
     appended k (Suc m) (append_rows d [r])"





section \<open>Properties of the matchers\<close>

lemma match_lit_prefix:
  "match_lit l s = (if prefix l s then Some (drop (length l) s) else None)"
  by (induction l s rule: match_lit.induct) auto

lemma match_plus_eq:
  "match_plus P s = (if takeWhile P s = [] then None else Some (length (takeWhile P s)))"
  by (simp add: match_plus_def split: list.splits)

lemma match_mention_Cons:
  "match_mention (c # cs) =
     (if c = 64 \<and> takeWhile is_word cs \<noteq> [] then Some (Suc (length (takeWhile is_word cs)))
      else None)"
  by (simp add: match_mention_def py_str_def match_plus_eq)

lemma match_hashtag_Cons:
  "match_hashtag (c # cs) =
     (if c = 35 \<and> takeWhile is_word cs \<noteq> [] then Some (Suc (length (takeWhile is_word cs)))
      else None)"
  by (simp add: match_hashtag_def py_str_def match_plus_eq)

lemma prefix_append_drop:
  "prefix (a @ b) s \<longleftrightarrow> prefix a s \<and> prefix b (drop (length a) s)"
  by (auto simp: prefix_def)

lemma s_not_colon: "prefix (py_str ''s'') r \<Longrightarrow> \<not> prefix (py_str ''://'') r"
  by (cases r) (auto simp: py_str_def)

lemma url_scheme_len_eq:
  "url_scheme_len s =
     (if prefix (py_str ''http'') s then
        (if prefix (py_str ''s'') (drop 4 s) then
           (if prefix (py_str ''://'') (drop 5 s) then Some 8 else None)
         else if prefix (py_str ''://'') (drop 4 s) then Some 7 else None)
      else None)"
proof -
  have l4: "length (py_str ''http'') = 4" and l1: "length (py_str ''s'') = 1"
    by (simp_all add: py_str_def)
  have https: "py_str ''https://'' = py_str ''http'' @ py_str ''s'' @ py_str ''://''"
    and http: "py_str ''http://'' = py_str ''http'' @ py_str ''://''"
    by (simp_all add: py_str_def)
  have a: "prefix (py_str ''https://'') s \<longleftrightarrow>
      prefix (py_str ''http'') s \<and> prefix (py_str ''s'') (drop 4 s) \<and>
      prefix (py_str ''://'') (drop 5 s)"
    by (simp add: https prefix_append_drop l4 l1)
  have b: "prefix (py_str ''http://'') s \<longleftrightarrow>
      prefix (py_str ''http'') s \<and> prefix (py_str ''://'') (drop 4 s)"
    by (simp add: http prefix_append_drop l4)
  show ?thesis
    unfolding url_scheme_len_def a b using s_not_colon [of "drop 4 s"] by auto
qed

lemma match_url_eq:
  "match_url s =
     (case url_scheme_len s of
        None \<Rightarrow> None
      | Some k \<Rightarrow>
          (if takeWhile is_urlch (drop k s) = [] then None
           else Some (k + length (takeWhile is_urlch (drop k s)))))"
proof -
  have l4: "length (py_str ''http'') = 4" and l1: "length (py_str ''s'') = 1"
    and l3: "length (py_str ''://'') = 3"
    by (simp_all add: py_str_def)
  show ?thesis
    unfolding url_scheme_len_eq match_url_def match_lit_prefix match_plus_eq
    by (simp add: l4 l1 l3)
qed

lemma url_scheme_len_pos: "url_scheme_len s = Some k \<Longrightarrow> 0 < k"
  by (auto simp: url_scheme_len_def split: if_splits)

lemma url_scheme_len_colon: "url_scheme_len t = Some k \<Longrightarrow> 58 \<in> set t"
  by (auto simp: url_scheme_len_def prefix_def py_str_def split: if_splits)

lemma match_url_colon: "match_url t = Some n \<Longrightarrow> 58 \<in> set t"
  by (auto simp: match_url_eq dest: url_scheme_len_colon split: option.splits)

section \<open>Where a pattern matches\<close>

lemma re_sub_del_special:
  "re_sub_del match_special s = filter (\<lambda>c. is_alpha_az c \<or> is_space c) s"
  by (induction s) (simp_all add: match_special_def)

text \<open>A pattern that matches nowhere in the text leaves it as it is.\<close>

lemma re_sub_del_no_match:
  "(\<And>t. t \<noteq> [] \<Longrightarrow> set t \<subseteq> set s \<Longrightarrow> m t = None) \<Longrightarrow> re_sub_del m s = s"
proof (induction s)
  case Nil
  show ?case by simp
next
  case (Cons c cs)
  have here: "m (c # cs) = None"
    by (rule Cons.prems) simp_all
  have rest: "re_sub_del m cs = cs"
  proof (rule Cons.IH)
    fix t :: str
    assume "t \<noteq> []" and "set t \<subseteq> set cs"
    then show "m t = None"
      by (intro Cons.prems) auto
  qed
  from here rest show ?case by simp
qed

section \<open>Lower-casing and stripping\<close>

lemma lower_cp_clean:
  "is_alpha_az c \<or> is_space c \<Longrightarrow> is_lower_az (lower_cp c) \<or> is_space (lower_cp c)"
  by (auto simp: lower_cp_def is_alpha_az_def is_upper_az_def is_lower_az_def is_space_def)

lemma lower_cp_fix: "is_lower_az c \<or> is_space c \<Longrightarrow> lower_cp c = c"
  by (auto simp: lower_cp_def is_upper_az_def is_lower_az_def is_space_def)

lemma set_strip: "set (strip s) \<subseteq> set s"
  unfolding strip_def by (auto dest!: set_dropWhileD)

lemma strip_hd: "strip x \<noteq> [] \<Longrightarrow> \<not> is_space (hd (strip x))"
proof -
  assume ne: "strip x \<noteq> []"
  let ?u = "dropWhile is_space x"
  let ?w = "dropWhile is_space (rev ?u)"
  from ne have w: "?w \<noteq> []" by (simp add: strip_def)
  then obtain y where y: "y \<in> set (rev ?u)" "\<not> is_space y" by auto
  then have u: "?u \<noteq> []" by (auto simp del: dropWhile_eq_Nil_conv)
  then have hu: "\<not> is_space (hd ?u)" by (rule hd_dropWhile)
  have "hd (strip x) = last ?w" using w by (simp add: strip_def hd_rev)
  also have "\<dots> = last (rev ?u)" using y by (rule dropWhile_last)
  also have "\<dots> = hd ?u" using u by (simp add: last_rev)
  finally show ?thesis using hu by simp
qed

lemma strip_last: "strip x \<noteq> [] \<Longrightarrow> \<not> is_space (last (strip x))"
proof -
  assume ne: "strip x \<noteq> []"
  let ?w = "dropWhile is_space (rev (dropWhile is_space x))"
  from ne have w: "?w \<noteq> []" by (simp add: strip_def)
  then have "\<not> is_space (hd ?w)" by (rule hd_dropWhile)
  moreover have "last (strip x) = hd ?w" using w by (simp add: strip_def last_rev)
  ultimately show ?thesis by simp
qed

lemma strip_fix:
  assumes "s = [] \<or> (\<not> is_space (hd s) \<and> \<not> is_space (last s))"
  shows "strip s = s"
proof (cases "s = []")
  case True
  then show ?thesis by (simp add: strip_def)
next
  case False
  with assms have h: "\<not> is_space (hd s)" and l: "\<not> is_space (last s)" by auto
  from False h have a: "dropWhile is_space s = s"
    by (simp add: dropWhile_eq_self_iff)
  from False l have b: "dropWhile is_space (rev s) = rev s"
    by (simp add: dropWhile_eq_self_iff hd_rev)
  show ?thesis by (simp add: strip_def a b)
qed

section \<open>Properties of \<open>preprocess_text\<close>\<close>

lemma preprocess_text_steps:
  "preprocess_text s =
     strip (lower (filter (\<lambda>c. is_alpha_az c \<or> is_space c)
       (re_sub_del match_url (re_sub_del match_hashtag (re_sub_del match_mention s)))))"
  by (simp add: preprocess_text_def Let_def re_sub_del_special)

lemma preprocess_text_chars:
  "c \<in> set (preprocess_text s) \<Longrightarrow> is_lower_az c \<or> is_space c"
proof -
  assume "c \<in> set (preprocess_text s)"
  then have "c \<in> set (lower (filter (\<lambda>c. is_alpha_az c \<or> is_space c)
       (re_sub_del match_url (re_sub_del match_hashtag (re_sub_del match_mention s)))))"
    unfolding preprocess_text_steps using set_strip by blast
  then obtain d where "c = lower_cp d" "is_alpha_az d \<or> is_space d"
    by (auto simp: lower_def)
  then show ?thesis using lower_cp_clean by blast
qed

lemma preprocess_text_ends:
  "preprocess_text s = [] \<or>
   (\<not> is_space (hd (preprocess_text s)) \<and> \<not> is_space (last (preprocess_text s)))"
  unfolding preprocess_text_steps using strip_hd strip_last by blast

text \<open>
  A text of lower-case letters and whitespace that neither starts nor ends with
  whitespace is left as it is.
\<close>

lemma preprocess_text_clean:
  assumes clean: "\<And>c. c \<in> set t \<Longrightarrow> is_lower_az c \<or> is_space c"
    and ends: "t = [] \<or> (\<not> is_space (hd t) \<and> \<not> is_space (last t))"
  shows "preprocess_text t = t"
proof -
  have no: "k \<notin> set t" if "\<not> is_lower_az k" "\<not> is_space k" for k
    using clean that by blast
  have n64: "64 \<notin> set t" by (rule no) (simp_all add: is_lower_az_def is_space_def)
  have n35: "35 \<notin> set t" by (rule no) (simp_all add: is_lower_az_def is_space_def)
  have n58: "58 \<notin> set t" by (rule no) (simp_all add: is_lower_az_def is_space_def)
  have m: "re_sub_del match_mention t = t"
  proof (rule re_sub_del_no_match)
    fix u :: str assume "u \<noteq> []" "set u \<subseteq> set t"
    with n64 show "match_mention u = None"
      by (cases u) (auto simp: match_mention_Cons)
  qed
  have h: "re_sub_del match_hashtag t = t"
  proof (rule re_sub_del_no_match)
    fix u :: str assume "u \<noteq> []" "set u \<subseteq> set t"
    with n35 show "match_hashtag u = None"
      by (cases u) (auto simp: match_hashtag_Cons)
  qed
  have u: "re_sub_del match_url t = t"
  proof (rule re_sub_del_no_match)
    fix u :: str assume "u \<noteq> []" "set u \<subseteq> set t"
    with n58 have "58 \<notin> set u" by blast
    then show "match_url u = None"
      using match_url_colon [of u] by (cases "match_url u") auto
  qed
  have f: "filter (\<lambda>c. is_alpha_az c \<or> is_space c) t = t"
    using clean by (auto simp: filter_id_conv is_alpha_az_def)
  have l: "lower t = t"
    unfolding lower_def using clean by (intro map_idI lower_cp_fix)
  have s: "strip t = t" using ends by (rule strip_fix)
  show ?thesis by (simp add: preprocess_text_steps m h u f l s)
qed

lemmas eval_defs =
  preprocess_text_def py_str_def match_mention_def match_hashtag_def match_url_def
  match_special_def match_plus_def is_word_def is_urlch_def is_alpha_az_def is_upper_az_def
  is_lower_az_def is_digit09_def is_space_def lower_def lower_cp_def strip_def

text \<open>
  The example of the specification, before the last step: after the four substitutions
  and the lower-casing the text still ends with two spaces.
\<close>

lemma example_before_strip:
  "lower (re_sub_del match_special (re_sub_del match_url (re_sub_del match_hashtag
     (re_sub_del match_mention (py_str ''I LOVE @brand! Check http://x.co #great''))))) =
   py_str ''i love  check  ''"
  by (simp add: eval_defs)

text \<open>
  C3: \<open>normalize("I LOVE @brand! Check http://x.co #great")\<close> is \<open>"i love  check"\<close>:
  the double space where \<open>!\<close> stood between two spaces is kept, and \<open>strip\<close> removes
  the two spaces that the URL and the hashtag leave at the end.
\<close>

theorem preprocess_text_example:
  "preprocess_text (py_str ''I LOVE @brand! Check http://x.co #great'') =
   py_str ''i love  check''"
  by (simp add: eval_defs)

text \<open>
  C3, as the specification's example writes it: the result is not the string with the
  two trailing spaces.
\<close>

theorem preprocess_text_example_not_trailing:
  "preprocess_text (py_str ''I LOVE @brand! Check http://x.co #great'') \<noteq>
   py_str ''i love  check  ''"
  by (simp add: eval_defs)

text \<open>
  C4: the normalizer is idempotent: normalizing a normalized text changes nothing.
\<close>

theorem preprocess_text_idempotent:
  "preprocess_text (preprocess_text x) = preprocess_text x"
proof (rule preprocess_text_clean)
  fix c
  assume "c \<in> set (preprocess_text x)"
  then show "is_lower_az c \<or> is_space c"
    by (rule preprocess_text_chars)
next
  show "preprocess_text x = [] \<or>
    (\<not> is_space (hd (preprocess_text x)) \<and> \<not> is_space (last (preprocess_text x)))"
    by (rule preprocess_text_ends)
qed

section \<open>The steps of the specification and the substitutions\<close>

text \<open>The enumerated classes are the classes of the patterns.\<close>

lemma spec_letter_eq: "spec_letter = is_alpha_az"
  by (rule ext)
    (auto simp: spec_letter_def is_alpha_az_def is_upper_az_def is_lower_az_def
      simp del: upt_rec_numeral)

lemma spec_alnum_eq: "spec_alnum c \<longleftrightarrow> is_alpha_az c \<or> is_digit09 c"
  by (auto simp: spec_alnum_def spec_letter_eq is_digit09_def simp del: upt_rec_numeral)

lemma spec_tag_char_eq: "spec_tag_char = is_word"
  by (rule ext) (simp add: spec_tag_char_def spec_alnum_eq is_word_def py_str_def)

lemma spec_url_char_eq: "spec_url_char = is_urlch"
  by (rule ext) (auto simp: spec_url_char_def spec_alnum_eq is_urlch_def py_str_def)

lemma spec_space_eq: "spec_space = is_space"
  by (rule ext) (auto simp: spec_space_def is_space_def simp del: upt_rec_numeral)

lemma match_url_spec:
  "match_url s =
     (case url_scheme_len s of
        None \<Rightarrow> None
      | Some k \<Rightarrow>
          (if takeWhile spec_url_char (drop k s) = [] then None
           else Some (k + length (takeWhile spec_url_char (drop k s)))))"
  unfolding spec_url_char_eq by (rule match_url_eq)

text \<open>Steps 1 to 3: the scan with a matcher is the recursion of the specification.\<close>

lemma re_sub_del_mention: "re_sub_del match_mention s = remove_tokens 64 is_word s"
proof (induction "64 :: nat" is_word s rule: remove_tokens.induct)
  case 1
  show ?case by simp
next
  case (2 c cs)
  then show ?case
    by (simp add: match_mention_Cons dropWhile_eq_drop)
qed

lemma re_sub_del_hashtag: "re_sub_del match_hashtag s = remove_tokens 35 is_word s"
proof (induction "35 :: nat" is_word s rule: remove_tokens.induct)
  case 1
  show ?case by simp
next
  case (2 c cs)
  then show ?case
    by (simp add: match_hashtag_Cons dropWhile_eq_drop)
qed

lemma re_sub_del_url: "re_sub_del match_url s = remove_urls s"
proof (induction s rule: remove_urls.induct)
  case 1
  show ?case by simp
next
  case (2 c cs)
  show ?case
  proof (cases "url_scheme_len (c # cs)")
    case None
    with 2(1) show ?thesis by (simp add: match_url_spec)
  next
    case (Some k)
    then have kpos: "0 < k" by (rule url_scheme_len_pos)
    show ?thesis
    proof (cases "takeWhile spec_url_char (drop k (c # cs)) = []")
      case True
      with Some 2(2) show ?thesis by (simp add: match_url_spec)
    next
      case False
      let ?n = "length (takeWhile spec_url_char (drop k (c # cs)))"
      from kpos obtain j where j: "k = Suc j" by (cases k) auto
      have m: "match_url (c # cs) = Some (Suc (j + ?n))"
        using Some False by (simp add: match_url_spec j)
      have d: "drop (j + ?n) cs = dropWhile spec_url_char (drop k (c # cs))"
        by (simp add: dropWhile_eq_drop j add.commute)
      from 2(3) [OF Some False] m d Some False show ?thesis
        by simp
    qed
  qed
qed

text \<open>Step 4.\<close>

lemma remove_special_filter:
  "remove_special s = filter (\<lambda>c. is_alpha_az c \<or> is_space c) s"
  by (induction s) (simp_all add: spec_letter_eq spec_space_eq)

text \<open>Step 5.\<close>

lemma upper_to_lower_upt: "map (\<lambda>c. c + 32) [65..<91] = [97..<123]"
  by (rule map_upt_eqI) (simp_all del: upt_rec_numeral)

lemma to_lower_range: "to_lower c = (if 65 \<le> c \<and> c < 91 then c + 32 else c)"
proof -
  have "map_of (zip [65..<91] [97..<123]) c =
      (if c \<in> set [65..<91] then Some (c + 32) else None)"
    unfolding upper_to_lower_upt [symmetric] by (simp only: map_of_zip_map)
  then show ?thesis
    by (simp add: to_lower_def del: upt_rec_numeral)
qed

lemma to_lower_eq: "to_lower c = lower_cp c"
  by (auto simp: to_lower_range lower_cp_def is_upper_az_def)

lemma lower_case_eq: "lower_case s = lower s"
  by (induction s) (simp_all add: lower_def to_lower_eq)

text \<open>Step 6.\<close>

lemma trim_leading_eq: "trim_leading s = dropWhile is_space s"
  by (induction s) (simp_all add: spec_space_eq)

lemma trim_eq: "trim s = strip s"
  by (simp add: trim_def trim_trailing_def trim_leading_eq strip_def)

text \<open>
  C7: the normalizer applies the six steps of the specification, in their order:
  (1) mentions, \<open>@\<close> and one or more alphanumerics or underscores, are removed;
  (2) hashtags, \<open>#\<close> and the same, are removed; (3) URLs, \<open>http\<close> or \<open>https\<close>,
  \<open>://\<close> and one or more alphanumerics, \<open>.\<close> or \<open>/\<close> and nothing broader, are removed;
  (4) every character that is not an ASCII letter or whitespace is removed; (5) the
  text is lower-cased; (6) leading and trailing whitespace is trimmed.
\<close>

theorem preprocess_text_refines_spec:
  "preprocess_text x = normalize_spec x"
proof -
  have tags: "hd (py_str ''@'') = 64" "hd (py_str ''#'') = 35"
    by (simp_all add: py_str_def)
  show ?thesis
    unfolding preprocess_text_steps normalize_spec_def Let_def tags spec_tag_char_eq
    by (simp only: re_sub_del_mention re_sub_del_hashtag re_sub_del_url
        remove_special_filter lower_case_eq trim_eq)
qed

text \<open>
  The steps of the specification, run on a text with a mention, a hashtag, a URL with
  a query string, digits, upper case, and whitespace at both ends: the query string
  stays (without its punctuation), and so does \<open>https\<close> where no \<open>://\<close> follows.
\<close>

lemmas spec_defs =
  normalize_spec_def py_str_def spec_letter_def spec_alnum_def spec_tag_char_def
  spec_url_char_def spec_space_def url_scheme_len_def to_lower_range trim_def
  trim_trailing_def

theorem preprocess_text_refines_spec_witness:
  "normalize_spec (py_str '' Go @me_1 to http://x.co/a?b=C #Tag9 or https:x NOW  '') =
     py_str ''go  to bc  or httpsx now'' \<and>
   preprocess_text (py_str '' Go @me_1 to http://x.co/a?b=C #Tag9 or https:x NOW  '') =
     py_str ''go  to bc  or httpsx now''"
  using preprocess_text_refines_spec
    [of "py_str '' Go @me_1 to http://x.co/a?b=C #Tag9 or https:x NOW  ''"]
  by (simp add: spec_defs del: upt_rec_numeral)

text \<open>
  C9: the output of the normalizer holds lower-case ASCII letters and whitespace only,
  and neither starts nor ends with whitespace.
\<close>

theorem preprocess_text_output:
  "(\<forall>c \<in> set (preprocess_text x). is_lower_az c \<or> is_space c) \<and>
   (preprocess_text x \<noteq> [] \<longrightarrow>
      \<not> is_space (hd (preprocess_text x)) \<and> \<not> is_space (last (preprocess_text x)))"
  using preprocess_text_chars [of _ x] preprocess_text_ends [of x] by blast

theorem preprocess_text_output_witness:
  "preprocess_text [8195, 72, 105, 33, 32, 89, 111, 117, 160] = py_str ''hi you'' \<and>
   is_lower_az (hd (preprocess_text [8195, 72, 105, 33, 32, 89, 111, 117, 160])) \<and>
   is_lower_az (last (preprocess_text [8195, 72, 105, 33, 32, 89, 111, 117, 160]))"
  using preprocess_text_output [of "[8195, 72, 105, 33, 32, 89, 111, 117, 160]"]
  by (simp add: eval_defs)

section \<open>Properties of the classifier\<close>

lemma label_distinct: "py_str ''Positive'' \<noteq> py_str ''Negative''"
  by (simp add: py_str_def)

text \<open>
  C1: whenever the scorer gives a polarity for the cleaned text, the classifier returns
  it with a label that is Positive or Negative and nothing else; the label is Positive
  exactly when the polarity is greater than 0, and a polarity of 0 gives Negative.
\<close>

theorem analyze_sentiment_label:
  assumes "score (preprocess_text t) = Inr p"
  shows "\<exists>lbl emo. analyze_sentiment score t = Inr (p, lbl, emo) \<and>
           (lbl = py_str ''Positive'' \<or> lbl = py_str ''Negative'') \<and>
           (lbl = py_str ''Positive'' \<longleftrightarrow> 0 < p) \<and>
           (p = 0 \<longrightarrow> lbl = py_str ''Negative'')"
proof (cases "0 < p")
  case True
  with assms have "analyze_sentiment score t = Inr (p, py_str ''Positive'', [128522])"
    by (simp add: analyze_sentiment_def)
  with True show ?thesis by simp
next
  case False
  with assms have "analyze_sentiment score t = Inr (p, py_str ''Negative'', [128544])"
    by (simp add: analyze_sentiment_def)
  with False label_distinct show ?thesis by simp
qed

theorem analyze_sentiment_label_witness:
  "analyze_sentiment (\<lambda>s. Inr 0 :: error + real) (py_str ''It is a phone.'') =
     Inr (0, py_str ''Negative'', [128544]) \<and>
   analyze_sentiment (\<lambda>s. Inr (1 / 2) :: error + real) (py_str ''I love it'') =
     Inr (1 / 2, py_str ''Positive'', [128522])"
  using analyze_sentiment_label [of "\<lambda>s. Inr 0 :: error + real" "py_str ''It is a phone.''" 0]
    analyze_sentiment_label [of "\<lambda>s. Inr (1 / 2) :: error + real" "py_str ''I love it''" "1 / 2"]
  by (simp add: analyze_sentiment_def)





text \<open>The rows of a batch when the scorer returns for every tweet.\<close>

lemma analyze_tweets_total:
  "analyze_tweets (\<lambda>s. Inr (f s)) clock k ts =
     Inr (map (\<lambda>(i, u).
        \<lparr>time = clock (k + i), text_col = u, sentiment_score = f (preprocess_text u),
         sentiment = (if 0 < f (preprocess_text u) then py_str ''Positive''
                      else py_str ''Negative''),
         sentiment_emoji = (if 0 < f (preprocess_text u) then [128522] else [128544])\<rparr>)
       (enumerate 0 ts))"
proof (induction ts arbitrary: k)
  case Nil
  show ?case by simp
next
  case (Cons u ts)
  have "enumerate (Suc 0) ts = map (apfst Suc) (enumerate 0 ts)"
    by (rule enumerate_Suc_eq)
  with Cons [of "Suc k"] show ?case
    by (simp add: analyze_sentiment_def split_beta comp_def)
qed

lemma update_data_total:
  assumes "running st" and "int (refresh_rate w) * 1000000 \<le> clock 0 - last_update st"
  shows "update_data (\<lambda>s. Inr (f s)) clock fetch w st =
     Inr (Rerun (st\<lparr>data := data st @
        map (\<lambda>(i, u).
          \<lparr>time = clock (Suc i), text_col = u, sentiment_score = f (preprocess_text u),
           sentiment = (if 0 < f (preprocess_text u) then py_str ''Positive''
                        else py_str ''Negative''),
           sentiment_emoji = (if 0 < f (preprocess_text u) then [128522] else [128544])\<rparr>)
         (enumerate 0 (fetch (keyword_input w) (tweets_per_refresh w))),
       last_update := clock (Suc (length (fetch (keyword_input w) (tweets_per_refresh w))))\<rparr>))"
  using assms by (simp add: update_data_def Let_def analyze_tweets_total append_rows_def)

lemma update_data_idle:
  "\<not> running st \<or> clock 0 - last_update st < int (refresh_rate w) * 1000000 \<Longrightarrow>
   update_data score clock fetch w st = Inr (Continue st)"
  by (auto simp: update_data_def)




section \<open>Properties of the store\<close>

lemma counts_snoc:
  "counts (append_rows d [r]) =
     (case counts d of (p, n, t) \<Rightarrow>
        (if sentiment r = py_str ''Positive'' then Suc p else p,
         if sentiment r = py_str ''Negative'' then Suc n else n,
         Suc t))"
  by (simp add: counts_def append_rows_def Let_def)

text \<open>
  C6: a store built from the empty one by appending \<open>k\<close> records labelled Positive and
  \<open>m\<close> labelled Negative, in any interleaving, has the counts \<open>(k, m, k + m)\<close>.
\<close>

theorem counts_appended:
  "appended k m d \<Longrightarrow> counts d = (k, m, k + m)"
proof (induction rule: appended.induct)
  case appended_empty
  show ?case by (simp add: counts_def)
next
  case (appended_positive k m d r)
  with label_distinct show ?case by (simp add: counts_snoc)
next
  case (appended_negative k m d r)
  with label_distinct show ?case by (simp add: counts_snoc)
qed

theorem counts_appended_witness:
  "counts (append_rows (append_rows (append_rows []
      [\<lparr>time = 1, text_col = py_str ''great'', sentiment_score = 4 / 5,
        sentiment = py_str ''Positive'', sentiment_emoji = [128522]\<rparr>])
      [\<lparr>time = 2, text_col = py_str ''awful'', sentiment_score = - 1,
        sentiment = py_str ''Negative'', sentiment_emoji = [128544]\<rparr>])
      [\<lparr>time = 3, text_col = py_str ''great'', sentiment_score = 4 / 5,
        sentiment = py_str ''Positive'', sentiment_emoji = [128522]\<rparr>]) = (2, 1, 3)"
proof -
  let ?p = "\<lparr>time = 1, text_col = py_str ''great'', sentiment_score = 4 / 5,
        sentiment = py_str ''Positive'', sentiment_emoji = [128522]\<rparr>"
  let ?n = "\<lparr>time = 2, text_col = py_str ''awful'', sentiment_score = - 1,
        sentiment = py_str ''Negative'', sentiment_emoji = [128544]\<rparr>"
  let ?q = "\<lparr>time = 3, text_col = py_str ''great'', sentiment_score = 4 / 5,
        sentiment = py_str ''Positive'', sentiment_emoji = [128522]\<rparr>"
  have "appended 1 0 (append_rows [] [?p])"
    using appended_positive [OF appended_empty, of ?p] by simp
  then have "appended 1 1 (append_rows (append_rows [] [?p]) [?n])"
    using appended_negative [of 1 0 _ ?n] by simp
  then have "appended 2 1 (append_rows (append_rows (append_rows [] [?p]) [?n]) [?q])"
    using appended_positive [of 1 1 _ ?q] by (simp add: numeral_2_eq_2)
  from counts_appended [OF this] show ?thesis by simp
qed

lemma metrics_clear_data: "metrics (data (clear_data st)) = None"
  by (simp add: metrics_def clear_data_def)


text \<open>
  C10: Clear Data changes the record log only: the running flag, the stored keyword and
  the time of the last update stay as they were, and the run that handles the button
  ends there, before the update.
\<close>

theorem clear_data_frame:
  "running (clear_data st) = running st \<and>
   keyword (clear_data st) = keyword st \<and>
   last_update (clear_data st) = last_update st \<and>
   (clear_clicked w \<and> \<not> start_clicked w \<longrightarrow>
      sidebar w st = Rerun (clear_data st) \<and>
      script_run score clock fetch w st = Inr (Rerun (clear_data st)))"
  by (simp add: clear_data_def sidebar_def script_run_def)

theorem clear_data_frame_witness:
  "script_run (\<lambda>s. Inr 0 :: error + real) (\<lambda>k. 99000000) (\<lambda>kw n. [kw])
     \<lparr>keyword_input = py_str ''Pixel'', refresh_rate = 10, tweets_per_refresh = 3,
      start_clicked = False, clear_clicked = True\<rparr>
     \<lparr>data = [\<lparr>time = 1, text_col = py_str ''great'', sentiment_score = 4 / 5,
               sentiment = py_str ''Positive'', sentiment_emoji = [128522]\<rparr>],
      last_update = 5, running = True, keyword = py_str ''iPhone''\<rparr> =
   Inr (Rerun \<lparr>data = [], last_update = 5, running = True, keyword = py_str ''iPhone''\<rparr>)"
  using clear_data_frame [of
     "\<lparr>data = [\<lparr>time = 1, text_col = py_str ''great'', sentiment_score = 4 / 5,
               sentiment = py_str ''Positive'', sentiment_emoji = [128522]\<rparr>],
      last_update = 5, running = True, keyword = py_str ''iPhone''\<rparr>"
     "\<lparr>keyword_input = py_str ''Pixel'', refresh_rate = 10, tweets_per_refresh = 3,
      start_clicked = False, clear_clicked = True\<rparr>"
     "\<lambda>s. Inr 0 :: error + real" "\<lambda>k. 99000000" "\<lambda>kw n. [kw]"]
  by (simp add: clear_data_def)

section \<open>Properties of the rolling average\<close>






end
